theory Spec2Isabelle
  imports Complex_Main
begin

section \<open>Solar pro-forma: the calculation engine of app.py\<close>

text \<open>
  The script computes with Python floats. The embedding idealises them as exact
  real numbers: every result below is a statement about the formulas of the
  script in exact arithmetic, and says nothing about the rounding of IEEE doubles.
  Python integers (the year counter, the ACP entries, the TSRF) are \<open>int\<close>.
  Selections of the form are the strings the script compares against.
\<close>

subsection \<open>Python primitives that can raise\<close>

datatype py_error = IndexError | ZeroDivisionError

text \<open>Sequencing of fallible steps: the first exception ends the computation.\<close>

definition and_then :: "py_error + 'a \<Rightarrow> ('a \<Rightarrow> py_error + 'b) \<Rightarrow> py_error + 'b" where
  "and_then m k = (case m of Inl e \<Rightarrow> Inl e | Inr v \<Rightarrow> k v)"

text \<open>\<open>xs[i]\<close>: a negative index counts from the end; outside the list it raises.\<close>

definition py_getitem :: "'a list \<Rightarrow> int \<Rightarrow> py_error + 'a" where
  "py_getitem xs i =
     (if 0 \<le> i \<and> i < int (length xs) then Inr (xs ! nat i)
      else if i < 0 \<and> - int (length xs) \<le> i then Inr (xs ! nat (int (length xs) + i))
      else Inl IndexError)"

text \<open>\<open>a / b\<close> on floats.\<close>

definition py_truediv :: "real \<Rightarrow> real \<Rightarrow> py_error + real" where
  "py_truediv a b = (if b = 0 then Inl ZeroDivisionError else Inr (a / b))"

text \<open>\<open>x ** n\<close> for a float base and an integer exponent.\<close>

definition py_pow :: "real \<Rightarrow> int \<Rightarrow> py_error + real" where
  "py_pow x n =
     (if 0 \<le> n then Inr (x ^ nat n)
      else if x = 0 then Inl ZeroDivisionError
      else Inr (1 / x ^ nat (- n)))"

text \<open>\<open>sum(xs)\<close>: a left fold from 0.\<close>

definition py_sum :: "real list \<Rightarrow> real" where
  "py_sum xs = foldl (\<lambda>acc x. acc + x) 0 xs"


subsection \<open>Form inputs\<close>

text \<open>
  The values the form widgets hand to the script. \<open>pricing_inputs\<close> is the dict of
  the seventeen cost categories in insertion order; \<open>md_srec_program\<close> is the value
  of the "MD SREC Program" select box, which is only shown for Maryland;
  \<open>escalation\<close> is the fraction parsed from the selected escalation option.
\<close>

record form =
  system_size_kw :: real
  jurisdiction :: string
  md_srec_program :: string
  electric_rate :: real
  tsrf :: int
  tax_bracket :: real
  itc_status :: string
  escalation :: real
  degradation :: real
  pricing_inputs :: "(string \<times> real) list"

definition jurisdiction_options :: "string list" where
  "jurisdiction_options = [''Maryland'', ''Washington DC'']"

definition md_srec_options :: "string list" where
  "md_srec_options = [''Standard SREC'', ''Brighter Tomorrow SREC'']"

definition pricing_categories :: "string list" where
  "pricing_categories =
     [''Modules'', ''Inverters'', ''Racking'', ''Ballast Block'', ''Electrical Material'',
      ''Other Materials'', ''Equipment Rental'', ''Roof Attachments'', ''Dumpsters'',
      ''Porta John'', ''Safety Equipment'', ''Engineering'', ''Stamps'', ''Permits'',
      ''Revenue Grade Meters'', ''IX Application Fees'', ''Origination Costs'']"

text \<open>The select boxes only offer their options.\<close>

definition selections_ok :: "form \<Rightarrow> bool" where
  "selections_ok f \<longleftrightarrow>
     jurisdiction f \<in> set jurisdiction_options \<and> md_srec_program f \<in> set md_srec_options"

definition srec_program :: "form \<Rightarrow> string" where
  "srec_program f =
     (if jurisdiction f = ''Maryland'' then md_srec_program f else ''Standard SREC (DC)'')"

subsection \<open>Pricing totals\<close>

definition system_size_w :: "form \<Rightarrow> real" where
  "system_size_w f = system_size_kw f * 1000"

definition total_per_watt :: "form \<Rightarrow> real" where
  "total_per_watt f = py_sum (map snd (pricing_inputs f))"

definition total_cost :: "form \<Rightarrow> real" where
  "total_cost f = total_per_watt f * system_size_w f"

text \<open>
  The two statements as one step with an outcome: neither \<open>sum\<close> nor the product
  raises, and the script checks nothing before them.
\<close>

definition pricing_totals :: "form \<Rightarrow> py_error + real \<times> real" where
  "pricing_totals f = Inr (total_per_watt f, total_cost f)"

subsection \<open>Year-1 metrics\<close>

definition year1_production :: "form \<Rightarrow> real" where
  "year1_production f = system_size_kw f * of_int (tsrf f)"

definition year1_savings :: "form \<Rightarrow> real" where
  "year1_savings f = year1_production f * electric_rate f"

definition srec_value :: "form \<Rightarrow> real" where
  "srec_value f =
     (if jurisdiction f = ''Maryland'' then
        (if srec_program f = ''Standard SREC'' then 55 * 0.90 else 55 * 0.90 * 1.5)
      else 460 * 0.85)"

definition year1_srecs :: "form \<Rightarrow> real" where
  "year1_srecs f = year1_production f / 1000"

definition year1_srec_income :: "form \<Rightarrow> real" where
  "year1_srec_income f = year1_srecs f * srec_value f"

subsection \<open>ITC and depreciation\<close>

definition itc_amount :: "form \<Rightarrow> real" where
  "itc_amount f = (if itc_status f = ''With ITC (30%)'' then total_cost f * 0.30 else 0)"

definition depreciable_basis :: "form \<Rightarrow> real" where
  "depreciable_basis f =
     (if itc_status f = ''With ITC (30%)'' then total_cost f * 0.85 else total_cost f)"

definition year1_depreciation :: "form \<Rightarrow> real" where
  "year1_depreciation f = depreciable_basis f"

definition year1_depreciation_tax_savings :: "form \<Rightarrow> real" where
  "year1_depreciation_tax_savings f = year1_depreciation f * tax_bracket f"

definition after_itc_cost :: "form \<Rightarrow> real" where
  "after_itc_cost f = total_cost f - itc_amount f"

definition year1_total_benefit :: "form \<Rightarrow> real" where
  "year1_total_benefit f =
     year1_savings f + year1_srec_income f + year1_depreciation_tax_savings f"

definition simple_payback :: "form \<Rightarrow> py_error + real" where
  "simple_payback f =
     (if year1_savings f + year1_srec_income f > 0
      then py_truediv (after_itc_cost f) (year1_savings f + year1_srec_income f)
      else Inr 0)"

subsection \<open>The 25-year cash flow\<close>

definition md_acp :: "int list" where
  "md_acp = [55, 45, 35, 30, 30, 30, 30, 30, 0] @ replicate 16 0"

definition dc_acp :: "int list" where
  "dc_acp =
     [460, 440, 420, 400, 380, 360, 340, 320, 300, 300, 300, 300, 300, 300, 300, 300, 300]
     @ replicate 8 100"

definition acp_schedule :: "form \<Rightarrow> int list" where
  "acp_schedule f = (if jurisdiction f = ''Washington DC'' then dc_acp else md_acp)"

definition srec_multiplier :: "form \<Rightarrow> real" where
  "srec_multiplier f = (if srec_program f = ''Brighter Tomorrow SREC'' then 1.5 else 1.0)"

definition srec_pct :: "form \<Rightarrow> real" where
  "srec_pct f = (if jurisdiction f = ''Washington DC'' then 0.85 else 0.90)"

text \<open>\<open>acp_schedule[year - 1] if year <= len(acp_schedule) else 0\<close>\<close>

definition acp_for_year :: "int list \<Rightarrow> int \<Rightarrow> py_error + int" where
  "acp_for_year sched year =
     (if year \<le> int (length sched) then py_getitem sched (year - 1) else Inr 0)"

text \<open>One row of the "25-Year Cash Flow" sheet: the ten cells written per year.\<close>

record year_record =
  year :: int
  electric_rate_year :: real
  production :: real
  savings :: real
  srec_val :: real
  srecs :: real
  srec_income :: real
  tax_savings :: real
  total_benefit :: real
  cumulative :: real

text \<open>The loop body; \<open>cum\<close> is the running \<open>cumulative\<close> on entry.\<close>

definition year_row :: "form \<Rightarrow> real \<Rightarrow> int \<Rightarrow> py_error + year_record" where
  "year_row f cum y =
     and_then (py_pow (1 + escalation f) (y - 1)) (\<lambda>esc_factor.
     and_then (py_pow (1 - degradation f) (y - 1)) (\<lambda>deg_factor.
     and_then (acp_for_year (acp_schedule f) y) (\<lambda>acp.
       let electric_rate_year = electric_rate f * esc_factor;
           production = year1_production f * deg_factor;
           savings = production * electric_rate_year;
           srec_val = of_int acp * srec_pct f * srec_multiplier f;
           srecs = production / 1000;
           srec_income = srecs * srec_val;
           tax_savings = (if y = 1 then year1_depreciation_tax_savings f else 0);
           total_benefit = savings + srec_income + tax_savings
       in Inr \<lparr> year = y, electric_rate_year = electric_rate_year,
                production = production, savings = savings, srec_val = srec_val,
                srecs = srecs, srec_income = srec_income, tax_savings = tax_savings,
                total_benefit = total_benefit, cumulative = cum + total_benefit \<rparr>)))"

fun cash_flow_loop :: "form \<Rightarrow> real \<Rightarrow> int list \<Rightarrow> py_error + year_record list" where
  "cash_flow_loop f cum [] = Inr []"
| "cash_flow_loop f cum (y # ys) =
     and_then (year_row f cum y) (\<lambda>r.
     and_then (cash_flow_loop f (cumulative r) ys) (\<lambda>rs. Inr (r # rs)))"

text \<open>\<open>cumulative = -after_itc_cost\<close>, then \<open>for year in range(1, 26)\<close>.\<close>

definition cash_flow :: "form \<Rightarrow> py_error + year_record list" where
  "cash_flow f = cash_flow_loop f (- after_itc_cost f) [1..25]"

subsection \<open>The 25-year totals of the client summary\<close>




subsection \<open>The ACP tables as the specification words them\<close>

text \<open>
  Following the spec's words, for comparison with \<open>md_acp\<close> and \<open>dc_acp\<close>:
  Maryland has nine explicit years and is zero from year 10 on; Washington DC has
  seventeen explicit years and the floor of 100 from year 18 on.
\<close>

definition spec_md_acp :: "int \<Rightarrow> int" where
  "spec_md_acp y = (if y \<le> 9 then [55, 45, 35, 30, 30, 30, 30, 30, 0] ! nat (y - 1) else 0)"

definition spec_dc_acp :: "int \<Rightarrow> int" where
  "spec_dc_acp y =
     (if y \<le> 17
      then [460, 440, 420, 400, 380, 360, 340, 320, 300, 300, 300, 300, 300, 300, 300, 300, 300]
             ! nat (y - 1)
      else 100)"

subsection \<open>Concrete forms\<close>

text \<open>
  The form as the application first shows it (the widget defaults and the default
  pricing of the session state), and variations of it.
\<close>

definition default_form :: form where
  "default_form = \<lparr> system_size_kw = 236.6, jurisdiction = ''Maryland'',
      md_srec_program = ''Standard SREC'', electric_rate = 0.135, tsrf = 1250,
      tax_bracket = 0.21, itc_status = ''With ITC (30%)'', escalation = 0.035,
      degradation = 0.005,
      pricing_inputs =
        [(''Modules'', 0.28), (''Inverters'', 0.15), (''Racking'', 0.23),
         (''Ballast Block'', 0.02), (''Electrical Material'', 0.23),
         (''Other Materials'', 0.02), (''Equipment Rental'', 0.04),
         (''Roof Attachments'', 0.02), (''Dumpsters'', 0.01), (''Porta John'', 0.00),
         (''Safety Equipment'', 0.01), (''Engineering'', 0.02), (''Stamps'', 0.03),
         (''Permits'', 0.03), (''Revenue Grade Meters'', 0.01),
         (''IX Application Fees'', 0.00), (''Origination Costs'', 0.05)] \<rparr>"

definition dc_form :: form where
  "dc_form = default_form \<lparr> jurisdiction := ''Washington DC'' \<rparr>"

definition brighter_form :: form where
  "brighter_form = default_form \<lparr> md_srec_program := ''Brighter Tomorrow SREC'' \<rparr>"


definition zero_size_form :: form where
  "zero_size_form = default_form \<lparr> system_size_kw := 0 \<rparr>"

definition negative_cost_form :: form where
  "negative_cost_form = default_form \<lparr> pricing_inputs :=
        [(''Modules'', - 0.28), (''Inverters'', 0.15), (''Racking'', 0.23),
         (''Ballast Block'', 0.02), (''Electrical Material'', 0.23),
         (''Other Materials'', 0.02), (''Equipment Rental'', 0.04),
         (''Roof Attachments'', 0.02), (''Dumpsters'', 0.01), (''Porta John'', 0.00),
         (''Safety Equipment'', 0.01), (''Engineering'', 0.02), (''Stamps'', 0.03),
         (''Permits'', 0.03), (''Revenue Grade Meters'', 0.01),
         (''IX Application Fees'', 0.00), (''Origination Costs'', 0.05)] \<rparr>"

definition negative_size_form :: form where
  "negative_size_form = default_form \<lparr> system_size_kw := - 1 \<rparr>"

section \<open>Auxiliary facts\<close>

subsection \<open>Sums and comprehensions\<close>

lemma foldl_add_sum_list: "foldl (\<lambda>acc x. acc + x) a xs = (a::real) + sum_list xs"
  by (induction xs arbitrary: a) simp_all

lemma py_sum_sum_list: "py_sum xs = sum_list xs"
  by (simp add: py_sum_def foldl_add_sum_list)




subsection \<open>The ACP schedules\<close>

lemma length_md_acp: "length md_acp = 25"
  by (simp add: md_acp_def)

lemma length_dc_acp: "length dc_acp = 25"
  by (simp add: dc_acp_def)

lemma length_acp_schedule: "length (acp_schedule f) = 25"
  by (simp add: acp_schedule_def length_md_acp length_dc_acp)

lemma acp_for_year_in_range:
  assumes "1 \<le> y" "y \<le> 25"
  shows "acp_for_year (acp_schedule f) y = Inr (acp_schedule f ! nat (y - 1))"
  using assms by (simp add: acp_for_year_def py_getitem_def length_acp_schedule)

lemma md_acp_spec:
  assumes "1 \<le> y" "y \<le> 25"
  shows "md_acp ! nat (y - 1) = spec_md_acp y"
proof (cases "y \<le> 9")
  case True
  with assms have "nat (y - 1) < length [55, 45, 35, 30, 30, 30, 30, 30, 0::int]" by simp
  then have "md_acp ! nat (y - 1) = [55, 45, 35, 30, 30, 30, 30, 30, 0] ! nat (y - 1)"
    unfolding md_acp_def by (rule nth_append_left)
  with True show ?thesis by (simp add: spec_md_acp_def)
next
  case False
  with assms have n: "length [55, 45, 35, 30, 30, 30, 30, 30, 0::int] \<le> nat (y - 1)"
    and m: "nat (y - 1) - 9 < 16" by simp_all
  from n have "md_acp ! nat (y - 1)
      = replicate 16 0 ! (nat (y - 1) - length [55, 45, 35, 30, 30, 30, 30, 30, 0::int])"
    unfolding md_acp_def by (rule nth_append_right)
  with m False show ?thesis by (simp add: spec_md_acp_def)
qed

lemma dc_acp_spec:
  assumes "1 \<le> y" "y \<le> 25"
  shows "dc_acp ! nat (y - 1) = spec_dc_acp y"
proof (cases "y \<le> 17")
  case True
  with assms have "nat (y - 1) < length
     [460, 440, 420, 400, 380, 360, 340, 320, 300, 300, 300, 300, 300, 300, 300, 300, 300::int]"
    by simp
  then have "dc_acp ! nat (y - 1) =
     [460, 440, 420, 400, 380, 360, 340, 320, 300, 300, 300, 300, 300, 300, 300, 300, 300]
       ! nat (y - 1)"
    unfolding dc_acp_def by (rule nth_append_left)
  with True show ?thesis by (simp add: spec_dc_acp_def)
next
  case False
  with assms have n: "length
     [460, 440, 420, 400, 380, 360, 340, 320, 300, 300, 300, 300, 300, 300, 300, 300, 300::int]
       \<le> nat (y - 1)"
    and m: "nat (y - 1) - 17 < 8" by simp_all
  from n have "dc_acp ! nat (y - 1) = replicate 8 100 ! (nat (y - 1) - length
     [460, 440, 420, 400, 380, 360, 340, 320, 300, 300, 300, 300, 300, 300, 300, 300, 300::int])"
    unfolding dc_acp_def by (rule nth_append_right)
  with m False show ?thesis by (simp add: spec_dc_acp_def)
qed

subsection \<open>One year of the loop\<close>

lemma py_pow_year: "1 \<le> y \<Longrightarrow> py_pow x (y - 1) = Inr (x ^ nat (y - 1))"
  by (simp add: py_pow_def)

lemma year_row_in_range:
  assumes "1 \<le> y" "y \<le> 25"
  shows "year_row f cum y = Inr
     \<lparr> year = y,
       electric_rate_year = electric_rate f * (1 + escalation f) ^ nat (y - 1),
       production = year1_production f * (1 - degradation f) ^ nat (y - 1),
       savings = (year1_production f * (1 - degradation f) ^ nat (y - 1))
                 * (electric_rate f * (1 + escalation f) ^ nat (y - 1)),
       srec_val = of_int (acp_schedule f ! nat (y - 1)) * srec_pct f * srec_multiplier f,
       srecs = year1_production f * (1 - degradation f) ^ nat (y - 1) / 1000,
       srec_income = (year1_production f * (1 - degradation f) ^ nat (y - 1) / 1000)
                 * (of_int (acp_schedule f ! nat (y - 1)) * srec_pct f * srec_multiplier f),
       tax_savings = (if y = 1 then year1_depreciation_tax_savings f else 0),
       total_benefit =
          (year1_production f * (1 - degradation f) ^ nat (y - 1))
                 * (electric_rate f * (1 + escalation f) ^ nat (y - 1))
          + (year1_production f * (1 - degradation f) ^ nat (y - 1) / 1000)
                 * (of_int (acp_schedule f ! nat (y - 1)) * srec_pct f * srec_multiplier f)
          + (if y = 1 then year1_depreciation_tax_savings f else 0),
       cumulative = cum +
          ((year1_production f * (1 - degradation f) ^ nat (y - 1))
                 * (electric_rate f * (1 + escalation f) ^ nat (y - 1))
          + (year1_production f * (1 - degradation f) ^ nat (y - 1) / 1000)
                 * (of_int (acp_schedule f ! nat (y - 1)) * srec_pct f * srec_multiplier f)
          + (if y = 1 then year1_depreciation_tax_savings f else 0)) \<rparr>"
  using assms
  by (simp add: year_row_def and_then_def py_pow_year acp_for_year_in_range Let_def)

lemma year_row_fields:
  assumes "1 \<le> y" "y \<le> 25" and "year_row f cum y = Inr r"
  shows "year r = y"
    and "electric_rate_year r = electric_rate f * (1 + escalation f) ^ nat (y - 1)"
    and "production r = year1_production f * (1 - degradation f) ^ nat (y - 1)"
    and "savings r = production r * electric_rate_year r"
    and "srec_val r = of_int (acp_schedule f ! nat (y - 1)) * srec_pct f * srec_multiplier f"
    and "srecs r = production r / 1000"
    and "srec_income r = srecs r * srec_val r"
    and "tax_savings r = (if y = 1 then year1_depreciation_tax_savings f else 0)"
    and "total_benefit r = savings r + srec_income r + tax_savings r"
    and "cumulative r = cum + total_benefit r"
  using assms(3) unfolding year_row_in_range [OF assms(1,2)] by auto

subsection \<open>The whole loop\<close>

text \<open>
  The loop over any list of years within the horizon returns one row per year, each
  computed by the loop body from the running total its predecessor left.
\<close>

lemma cash_flow_loop_rows:
  assumes "\<forall>y \<in> set ys. 1 \<le> y \<and> y \<le> 25"
  shows "\<exists>rs. cash_flow_loop f cum ys = Inr rs \<and> length rs = length ys \<and>
           (\<forall>i < length ys.
              year_row f (if i = 0 then cum else cumulative (rs ! (i - 1))) (ys ! i)
                = Inr (rs ! i))"
  using assms
proof (induction ys arbitrary: cum)
  case Nil
  then show ?case by simp
next
  case (Cons y ys)
  from Cons.prems have y: "1 \<le> y" "y \<le> 25" by simp_all
  obtain r where r: "year_row f cum y = Inr r"
    using year_row_in_range [OF y] by blast
  from Cons.prems have "\<forall>y \<in> set ys. 1 \<le> y \<and> y \<le> 25" by simp
  from Cons.IH [OF this, of "cumulative r"]
  obtain rs where rs: "cash_flow_loop f (cumulative r) ys = Inr rs" "length rs = length ys"
    "\<forall>i < length ys.
        year_row f (if i = 0 then cumulative r else cumulative (rs ! (i - 1))) (ys ! i)
          = Inr (rs ! i)"
    by blast
  have loop: "cash_flow_loop f cum (y # ys) = Inr (r # rs)"
    by (simp add: r rs(1) and_then_def)
  have rows: "year_row f (if i = 0 then cum else cumulative ((r # rs) ! (i - 1))) ((y # ys) ! i)
                = Inr ((r # rs) ! i)" if "i < length (y # ys)" for i
  proof (cases i)
    case 0
    then show ?thesis by (simp add: r)
  next
    case (Suc j)
    with that have "j < length ys" by simp
    with rs(3) have "year_row f (if j = 0 then cumulative r else cumulative (rs ! (j - 1))) (ys ! j)
          = Inr (rs ! j)" by blast
    then show ?thesis using Suc by (cases j) simp_all
  qed
  show ?case using loop rs(2) rows by auto
qed

lemma cash_flow_rows:
  "\<exists>rs. cash_flow f = Inr rs \<and> length rs = 25 \<and>
     (\<forall>i < 25.
        year_row f (if i = 0 then - after_itc_cost f else cumulative (rs ! (i - 1))) (1 + int i)
          = Inr (rs ! i))"
proof -
  have "\<forall>y \<in> set [1..25]. 1 \<le> y \<and> y \<le> 25" by simp
  from cash_flow_loop_rows [OF this, of f "- after_itc_cost f"]
  obtain rs where rs: "cash_flow_loop f (- after_itc_cost f) [1..25] = Inr rs"
    "length rs = length [1..25::int]"
    "\<forall>i < length [1..25::int].
        year_row f (if i = 0 then - after_itc_cost f else cumulative (rs ! (i - 1))) ([1..25] ! i)
          = Inr (rs ! i)"
    by blast
  have len: "length [1..25::int] = 25" by simp
  have nth: "[1..25::int] ! i = 1 + int i" if "i < 25" for i
    using that by (simp add: nth_upto)
  show ?thesis using rs len nth by (auto simp: cash_flow_def)
qed

lemma cash_flow_year:
  "\<exists>rs. cash_flow f = Inr rs \<and> length rs = 25 \<and>
     (\<forall>y. 1 \<le> y \<longrightarrow> y \<le> 25 \<longrightarrow>
           year_row f (if y = 1 then - after_itc_cost f else cumulative (rs ! nat (y - 2))) y
             = Inr (rs ! nat (y - 1)))"
proof -
  obtain rs where rs: "cash_flow f = Inr rs" "length rs = 25"
    and rows: "\<forall>i < 25.
        year_row f (if i = 0 then - after_itc_cost f else cumulative (rs ! (i - 1))) (1 + int i)
          = Inr (rs ! i)"
    using cash_flow_rows [of f] by blast
  have "year_row f (if y = 1 then - after_itc_cost f else cumulative (rs ! nat (y - 2))) y
             = Inr (rs ! nat (y - 1))" if "1 \<le> y" "y \<le> 25" for y
  proof -
    from that have i: "nat (y - 1) < 25" "1 + int (nat (y - 1)) = y" by simp_all
    have eq: "nat (y - 1) - 1 = nat (y - 2)" by simp
    from that have z: "nat (y - 1) = 0 \<longleftrightarrow> y = 1" by auto
    from rows i(1) have "year_row f (if nat (y - 1) = 0 then - after_itc_cost f
        else cumulative (rs ! (nat (y - 1) - 1))) (1 + int (nat (y - 1))) = Inr (rs ! nat (y - 1))"
      by blast
    then show ?thesis by (simp only: i(2) eq z)
  qed
  with rs show ?thesis by blast
qed



subsection \<open>Values of the default form\<close>

lemma default_total_per_watt: "total_per_watt default_form = 1.15"
  by (simp add: total_per_watt_def py_sum_def default_form_def)

lemma default_total_cost: "total_cost default_form = 272090"
  by (simp add: total_cost_def system_size_w_def default_total_per_watt)
    (simp add: default_form_def)

section \<open>The claims\<close>

text \<open>
  Claim C1. The cash flow has 25 rows, and for every year \<open>y\<close> in 1..25 the row of year
  \<open>y\<close> holds the electric rate \<open>electric_rate * (1 + escalation) ^ (y - 1)\<close> and the
  production \<open>year1_production * (1 - degradation) ^ (y - 1)\<close>; the row of year 1 holds the
  base rate unescalated and the full year-1 production.
\<close>

theorem escalation_degradation_compound:
  "\<exists>rs. cash_flow f = Inr rs \<and> length rs = 25 \<and>
     (\<forall>y \<in> {1..25}.
        year (rs ! nat (y - 1)) = y \<and>
        electric_rate_year (rs ! nat (y - 1))
          = electric_rate f * (1 + escalation f) ^ nat (y - 1) \<and>
        production (rs ! nat (y - 1))
          = year1_production f * (1 - degradation f) ^ nat (y - 1)) \<and>
     electric_rate_year (rs ! 0) = electric_rate f \<and>
     production (rs ! 0) = year1_production f"
proof -
  obtain rs where rs: "cash_flow f = Inr rs" "length rs = 25"
    and rows: "\<forall>y. 1 \<le> y \<longrightarrow> y \<le> 25 \<longrightarrow>
           year_row f (if y = 1 then - after_itc_cost f else cumulative (rs ! nat (y - 2))) y
             = Inr (rs ! nat (y - 1))"
    using cash_flow_year [of f] by blast
  have each: "year (rs ! nat (y - 1)) = y \<and>
        electric_rate_year (rs ! nat (y - 1))
          = electric_rate f * (1 + escalation f) ^ nat (y - 1) \<and>
        production (rs ! nat (y - 1))
          = year1_production f * (1 - degradation f) ^ nat (y - 1)"
    if "1 \<le> y" "y \<le> 25" for y
    using year_row_fields(1-3) [OF that rows [rule_format, OF that]] by simp
  from each [of 1] have "electric_rate_year (rs ! 0) = electric_rate f"
    "production (rs ! 0) = year1_production f" by simp_all
  with rs each show ?thesis by auto
qed

text \<open>
  C1 at the default form, year 5: four compounding steps on 0.135 $/kWh at 3.5% and on
  295,750 kWh at 0.5%.
\<close>

theorem escalation_degradation_compound_witness:
  "(5::int) \<in> {1..25} \<and>
   (\<exists>rs. cash_flow default_form = Inr rs \<and>
      electric_rate_year (rs ! 4) = 0.135 * 1.035 ^ 4 \<and>
      production (rs ! 4) = 295750 * 0.995 ^ 4)"
proof -
  have y: "(5::int) \<in> {1..25}" by simp
  obtain rs where rs: "cash_flow default_form = Inr rs"
    and all: "\<forall>y \<in> {1..25}.
        year (rs ! nat (y - 1)) = y \<and>
        electric_rate_year (rs ! nat (y - 1))
          = electric_rate default_form * (1 + escalation default_form) ^ nat (y - 1) \<and>
        production (rs ! nat (y - 1))
          = year1_production default_form * (1 - degradation default_form) ^ nat (y - 1)"
    using escalation_degradation_compound [of default_form] by blast
  from all y have "electric_rate_year (rs ! nat (5 - 1))
          = electric_rate default_form * (1 + escalation default_form) ^ nat (5 - 1) \<and>
        production (rs ! nat (5 - 1))
          = year1_production default_form * (1 - degradation default_form) ^ nat (5 - 1)"
    by blast
  then have "electric_rate_year (rs ! 4) = 0.135 * 1.035 ^ 4 \<and>
      production (rs ! 4) = 295750 * 0.995 ^ 4"
    by (simp add: default_form_def year1_production_def)
  with rs y show ?thesis by blast
qed

text \<open>
  Claim C2. For every year \<open>y\<close> in 1..25 the SREC unit value of the row is the ACP of
  the year times the availability factor times the enhanced multiplier: in Maryland the
  ACP is the nine listed values and then 0, with factor 0.90; in Washington DC it is the
  seventeen listed values and then the floor 100, with factor 0.85; the multiplier is 1.5
  exactly when the program is "Brighter Tomorrow SREC" and 1 otherwise.
\<close>

theorem srec_unit_value_schedule:
  "\<exists>rs. cash_flow f = Inr rs \<and> length rs = 25 \<and>
     (jurisdiction f = ''Maryland'' \<longrightarrow>
        (\<forall>y \<in> {1..25}. srec_val (rs ! nat (y - 1))
           = of_int (spec_md_acp y) * 0.90
             * (if srec_program f = ''Brighter Tomorrow SREC'' then 1.5 else 1))) \<and>
     (jurisdiction f = ''Washington DC'' \<longrightarrow>
        (\<forall>y \<in> {1..25}. srec_val (rs ! nat (y - 1))
           = of_int (spec_dc_acp y) * 0.85
             * (if srec_program f = ''Brighter Tomorrow SREC'' then 1.5 else 1)))"
proof -
  obtain rs where rs: "cash_flow f = Inr rs" "length rs = 25"
    and rows: "\<forall>y. 1 \<le> y \<longrightarrow> y \<le> 25 \<longrightarrow>
           year_row f (if y = 1 then - after_itc_cost f else cumulative (rs ! nat (y - 2))) y
             = Inr (rs ! nat (y - 1))"
    using cash_flow_year [of f] by blast
  have val: "srec_val (rs ! nat (y - 1))
      = of_int (acp_schedule f ! nat (y - 1)) * srec_pct f * srec_multiplier f"
    if "1 \<le> y" "y \<le> 25" for y
    using year_row_fields(5) [OF that rows [rule_format, OF that]] by simp
  have md: "srec_val (rs ! nat (y - 1)) = of_int (spec_md_acp y) * 0.90
             * (if srec_program f = ''Brighter Tomorrow SREC'' then 1.5 else 1)"
    if "jurisdiction f = ''Maryland''" "1 \<le> y" "y \<le> 25" for y
    using that val [OF that(2,3)] md_acp_spec [OF that(2,3)]
    by (simp add: acp_schedule_def srec_pct_def srec_multiplier_def)
  have dc: "srec_val (rs ! nat (y - 1)) = of_int (spec_dc_acp y) * 0.85
             * (if srec_program f = ''Brighter Tomorrow SREC'' then 1.5 else 1)"
    if "jurisdiction f = ''Washington DC''" "1 \<le> y" "y \<le> 25" for y
    using that val [OF that(2,3)] dc_acp_spec [OF that(2,3)]
    by (simp add: acp_schedule_def srec_pct_def srec_multiplier_def)
  from rs md dc show ?thesis by auto
qed

text \<open>
  C2 in Washington DC at year 18 (the floor: 100 * 0.85) and in Maryland under Brighter
  Tomorrow at year 2 (45 * 0.90 * 1.5).
\<close>

theorem srec_unit_value_schedule_witness:
  "jurisdiction dc_form = ''Washington DC'' \<and> (18::int) \<in> {1..25} \<and>
   (\<exists>rs. cash_flow dc_form = Inr rs \<and> srec_val (rs ! 17) = 85) \<and>
   jurisdiction brighter_form = ''Maryland'' \<and> (2::int) \<in> {1..25} \<and>
   (\<exists>rs. cash_flow brighter_form = Inr rs \<and> srec_val (rs ! 1) = 60.75)"
proof -
  have jd: "jurisdiction dc_form = ''Washington DC''"
    by (simp add: dc_form_def default_form_def)
  have jb: "jurisdiction brighter_form = ''Maryland''"
    by (simp add: brighter_form_def default_form_def)
  have pd: "srec_program dc_form \<noteq> ''Brighter Tomorrow SREC''"
    by (simp add: srec_program_def dc_form_def default_form_def)
  have pb: "srec_program brighter_form = ''Brighter Tomorrow SREC''"
    by (simp add: srec_program_def brighter_form_def default_form_def)
  have y18: "(18::int) \<in> {1..25}" and y2: "(2::int) \<in> {1..25}" by simp_all
  obtain rs where rs: "cash_flow dc_form = Inr rs"
    and dc: "\<forall>y \<in> {1..25}. srec_val (rs ! nat (y - 1))
           = of_int (spec_dc_acp y) * 0.85
             * (if srec_program dc_form = ''Brighter Tomorrow SREC'' then 1.5 else 1)"
    using srec_unit_value_schedule [of dc_form] jd by blast
  from dc y18 have "srec_val (rs ! nat (18 - 1)) = of_int (spec_dc_acp 18) * 0.85
             * (if srec_program dc_form = ''Brighter Tomorrow SREC'' then 1.5 else 1)"
    by blast
  then have d: "srec_val (rs ! 17) = 85"
    by (simp add: pd spec_dc_acp_def)
  obtain rs' where rs': "cash_flow brighter_form = Inr rs'"
    and md: "\<forall>y \<in> {1..25}. srec_val (rs' ! nat (y - 1))
           = of_int (spec_md_acp y) * 0.90
             * (if srec_program brighter_form = ''Brighter Tomorrow SREC'' then 1.5 else 1)"
    using srec_unit_value_schedule [of brighter_form] jb by blast
  from md y2 have "srec_val (rs' ! nat (2 - 1)) = of_int (spec_md_acp 2) * 0.90
             * (if srec_program brighter_form = ''Brighter Tomorrow SREC'' then 1.5 else 1)"
    by blast
  then have b: "srec_val (rs' ! 1) = 60.75"
    by (simp add: pb spec_md_acp_def)
  from jd jb y18 y2 rs d rs' b show ?thesis by blast
qed



text \<open>
  Claim C4. When the selections are among the options the form offers, the row of year 1
  (electric rate, production, electric savings, SREC unit value, SREC count, SREC income)
  equals the standalone year-1 metrics, in either jurisdiction and under each SREC program.
\<close>

theorem year1_record_matches_metrics:
  assumes "selections_ok f"
  shows "\<exists>rs. cash_flow f = Inr rs \<and> length rs = 25 \<and> year (rs ! 0) = 1 \<and>
           electric_rate_year (rs ! 0) = electric_rate f \<and>
           production (rs ! 0) = year1_production f \<and>
           savings (rs ! 0) = year1_savings f \<and>
           srec_val (rs ! 0) = srec_value f \<and>
           srecs (rs ! 0) = year1_srecs f \<and>
           srec_income (rs ! 0) = year1_srec_income f"
proof -
  obtain rs where rs: "cash_flow f = Inr rs" "length rs = 25"
    and rows: "\<forall>y. 1 \<le> y \<longrightarrow> y \<le> 25 \<longrightarrow>
           year_row f (if y = 1 then - after_itc_cost f else cumulative (rs ! nat (y - 2))) y
             = Inr (rs ! nat (y - 1))"
    using cash_flow_year [of f] by blast
  have y: "(1::int) \<le> 1" "(1::int) \<le> 25" by simp_all
  from rows [rule_format, OF y] have row: "year_row f (- after_itc_cost f) 1 = Inr (rs ! 0)"
    by simp
  note fs = year_row_fields [OF y row]
  have unit: "of_int (acp_schedule f ! 0) * srec_pct f * srec_multiplier f = srec_value f"
    using assms
    by (auto simp: selections_ok_def jurisdiction_options_def md_srec_options_def
        acp_schedule_def srec_pct_def srec_multiplier_def srec_value_def srec_program_def
        md_acp_def dc_acp_def)
  have "year (rs ! 0) = 1" using fs(1) .
  moreover have e: "electric_rate_year (rs ! 0) = electric_rate f" using fs(2) by simp
  moreover have p: "production (rs ! 0) = year1_production f" using fs(3) by simp
  moreover have "savings (rs ! 0) = year1_savings f"
    using fs(4) by (simp add: e p year1_savings_def)
  moreover have v: "srec_val (rs ! 0) = srec_value f" using fs(5) unit by simp
  moreover have c: "srecs (rs ! 0) = year1_srecs f"
    using fs(6) by (simp add: p year1_srecs_def)
  moreover have "srec_income (rs ! 0) = year1_srec_income f"
    using fs(7) by (simp add: v c year1_srec_income_def)
  ultimately show ?thesis using rs by blast
qed

text \<open>
  C4 at the default form (the year-1 figures of a 236.6 kW Maryland system) and at the
  same form in Washington DC (460 * 0.85 = 391 per credit).
\<close>

theorem year1_record_matches_metrics_witness:
  "selections_ok default_form \<and> selections_ok dc_form \<and>
   (\<exists>rs. cash_flow default_form = Inr rs \<and>
      production (rs ! 0) = 295750 \<and> savings (rs ! 0) = 39926.25 \<and>
      srec_val (rs ! 0) = 49.5 \<and> srecs (rs ! 0) = 295.75 \<and>
      srec_income (rs ! 0) = 14639.625) \<and>
   (\<exists>rs. cash_flow dc_form = Inr rs \<and> srec_val (rs ! 0) = 391)"
proof -
  have ok: "selections_ok default_form"
    by (simp add: selections_ok_def default_form_def jurisdiction_options_def
        md_srec_options_def)
  have okd: "selections_ok dc_form"
    by (simp add: selections_ok_def dc_form_def default_form_def jurisdiction_options_def
        md_srec_options_def)
  have p: "year1_production default_form = 295750"
    by (simp add: year1_production_def default_form_def)
  have s: "year1_savings default_form = 39926.25"
    by (simp add: year1_savings_def p) (simp add: default_form_def)
  have v: "srec_value default_form = 49.5"
    by (simp add: srec_value_def srec_program_def default_form_def)
  have c: "year1_srecs default_form = 295.75"
    by (simp add: year1_srecs_def p)
  have i: "year1_srec_income default_form = 14639.625"
    by (simp add: year1_srec_income_def c v)
  have vd: "srec_value dc_form = 391"
    by (simp add: srec_value_def srec_program_def dc_form_def default_form_def)
  from year1_record_matches_metrics [OF ok] p s v c i
  have a: "\<exists>rs. cash_flow default_form = Inr rs \<and>
      production (rs ! 0) = 295750 \<and> savings (rs ! 0) = 39926.25 \<and>
      srec_val (rs ! 0) = 49.5 \<and> srecs (rs ! 0) = 295.75 \<and>
      srec_income (rs ! 0) = 14639.625"
    by auto
  from year1_record_matches_metrics [OF okd] vd
  have b: "\<exists>rs. cash_flow dc_form = Inr rs \<and> srec_val (rs ! 0) = 391"
    by auto
  from ok okd a b show ?thesis by blast
qed


text \<open>
  Claim C6. With \<open>d = year1_savings + year1_srec_income\<close>: the simple payback is
  \<open>after_itc_cost / d\<close> when \<open>d > 0\<close> and the sentinel 0 when \<open>d \<le> 0\<close>; the division
  is only reached with a positive denominator, so it never raises.
\<close>

theorem simple_payback_guarded:
  "(year1_savings f + year1_srec_income f > 0 \<longrightarrow>
      simple_payback f
        = Inr (after_itc_cost f / (year1_savings f + year1_srec_income f))) \<and>
   (year1_savings f + year1_srec_income f \<le> 0 \<longrightarrow> simple_payback f = Inr 0) \<and>
   simple_payback f \<noteq> Inl ZeroDivisionError"
  by (simp add: simple_payback_def py_truediv_def)

text \<open>
  C6 at the default form (positive denominator) and at a form of size zero (the
  sentinel).
\<close>

theorem simple_payback_guarded_witness:
  "year1_savings default_form + year1_srec_income default_form > 0 \<and>
   simple_payback default_form = Inr (190463 / 54565.875) \<and>
   year1_savings zero_size_form + year1_srec_income zero_size_form \<le> 0 \<and>
   simple_payback zero_size_form = Inr 0"
proof -
  have p: "year1_production default_form = 295750"
    by (simp add: year1_production_def default_form_def)
  have s: "year1_savings default_form = 39926.25"
    by (simp add: year1_savings_def p) (simp add: default_form_def)
  have v: "srec_value default_form = 49.5"
    by (simp add: srec_value_def srec_program_def default_form_def)
  have i: "year1_srec_income default_form = 14639.625"
    by (simp add: year1_srec_income_def year1_srecs_def p v)
  have d: "year1_savings default_form + year1_srec_income default_form = 54565.875"
    by (simp add: s i)
  have a: "after_itc_cost default_form = 190463"
    by (simp add: after_itc_cost_def itc_amount_def default_total_cost)
      (simp add: default_form_def)
  have pos: "year1_savings default_form + year1_srec_income default_form > 0"
    by (simp add: d)
  have z: "year1_savings zero_size_form + year1_srec_income zero_size_form \<le> 0"
    by (simp add: year1_savings_def year1_srec_income_def year1_srecs_def year1_production_def
        zero_size_form_def)
  from simple_payback_guarded [of default_form] pos
  have "simple_payback default_form
      = Inr (after_itc_cost default_form
             / (year1_savings default_form + year1_srec_income default_form))"
    by blast
  then have x: "simple_payback default_form = Inr (190463 / 54565.875)"
    by (simp only: a d)
  from simple_payback_guarded [of zero_size_form] z
  have y: "simple_payback zero_size_form = Inr 0" by blast
  from pos x z y show ?thesis by blast
qed

text \<open>
  Claim C7. For a pricing schedule of the seventeen categories and a positive system size,
  the total unit cost is the sum of the seventeen unit costs and the total cost is the total
  unit cost times the system size in kW times 1000.
\<close>

theorem pricing_totals_sum:
  assumes "map fst (pricing_inputs f) = pricing_categories" and "0 < system_size_kw f"
  shows "length (pricing_inputs f) = 17 \<and>
         total_per_watt f = (\<Sum>i<17. snd (pricing_inputs f ! i)) \<and>
         total_cost f = total_per_watt f * system_size_kw f * 1000"
proof -
  from assms(1) have "length (map fst (pricing_inputs f)) = length pricing_categories"
    by simp
  then have len: "length (pricing_inputs f) = 17"
    by (simp add: pricing_categories_def)
  have "total_per_watt f = sum_list (map snd (pricing_inputs f))"
    by (simp add: total_per_watt_def py_sum_sum_list)
  also have "\<dots> = (\<Sum>i<length (pricing_inputs f). snd (pricing_inputs f ! i))"
    by (simp add: sum_list_sum_nth atLeast0LessThan)
  finally have tot: "total_per_watt f = (\<Sum>i<17. snd (pricing_inputs f ! i))"
    by (simp add: len)
  have "total_cost f = total_per_watt f * system_size_kw f * 1000"
    by (simp add: total_cost_def system_size_w_def)
  with len tot show ?thesis by blast
qed

text \<open>
  C7 at the default form: 1.15 $/W on 236.6 kW.
\<close>

theorem pricing_totals_sum_witness:
  "map fst (pricing_inputs default_form) = pricing_categories \<and>
   0 < system_size_kw default_form \<and>
   total_per_watt default_form = 1.15 \<and>
   (\<Sum>i<17. snd (pricing_inputs default_form ! i)) = 1.15 \<and>
   total_cost default_form = 1.15 * 236.6 * 1000"
proof -
  have c: "map fst (pricing_inputs default_form) = pricing_categories"
    by (simp add: default_form_def pricing_categories_def)
  have k: "0 < system_size_kw default_form" "system_size_kw default_form = 236.6"
    by (simp_all add: default_form_def)
  from pricing_totals_sum [OF c k(1)] default_total_per_watt k(2)
  have "(\<Sum>i<17. snd (pricing_inputs default_form ! i)) = 1.15 \<and>
        total_cost default_form = 1.15 * 236.6 * 1000"
    by simp
  with c k(1) default_total_per_watt show ?thesis by blast
qed



text \<open>
  Claim C9, as stated, fails: the pricing totals are computed without any check, so a
  negative unit cost and a non-positive system size are not rejected but produce totals.
\<close>

theorem pricing_rejects_counterexample:
  "snd (pricing_inputs negative_cost_form ! 0) < 0 \<and>
   pricing_totals negative_cost_form = Inr (0.59, 139594) \<and>
   system_size_kw negative_size_form \<le> 0 \<and>
   pricing_totals negative_size_form = Inr (1.15, - 1150)"
proof -
  have a: "total_per_watt negative_cost_form = 0.59"
    by (simp add: total_per_watt_def py_sum_def negative_cost_form_def)
  have b: "total_cost negative_cost_form = 139594"
    by (simp add: total_cost_def system_size_w_def a)
      (simp add: negative_cost_form_def default_form_def)
  have c: "total_per_watt negative_size_form = 1.15"
    by (simp add: total_per_watt_def py_sum_def negative_size_form_def default_form_def)
  have d: "total_cost negative_size_form = - 1150"
    by (simp add: total_cost_def system_size_w_def c)
      (simp add: negative_size_form_def)
  have n: "snd (pricing_inputs negative_cost_form ! 0) < 0"
    by (simp add: negative_cost_form_def)
  have k: "system_size_kw negative_size_form \<le> 0"
    by (simp add: negative_size_form_def)
  from n k show ?thesis by (simp add: pricing_totals_def a b c d)
qed

text \<open>
  Claim C9, amended. The pricing totals never raise: for every pricing schedule and every
  system size they are the sum of the unit costs and that sum times the size in watts; in
  particular they succeed when all unit costs are non-negative and the size is positive.
\<close>

theorem pricing_totals_never_raise:
  "pricing_totals f
     = Inr (sum_list (map snd (pricing_inputs f)),
            sum_list (map snd (pricing_inputs f)) * (system_size_kw f * 1000))"
  by (simp add: pricing_totals_def total_cost_def total_per_watt_def system_size_w_def
      py_sum_sum_list)

text \<open>
  Claim C10. Both ACP schedules have exactly 25 entries, so for every year \<open>y\<close> in 1..25
  the guard \<open>year <= len(acp_schedule)\<close> holds, the index \<open>y - 1\<close> is within bounds and the
  lookup returns the entry of the schedule; the fallback, which yields 0 for any
  schedule, is only taken for years beyond the list.
\<close>

theorem acp_schedules_cover_horizon:
  "length md_acp = 25 \<and> length dc_acp = 25 \<and> length (acp_schedule f) = 25 \<and>
   (\<forall>y \<in> {1..25}.
      y \<le> int (length (acp_schedule f)) \<and> 0 \<le> y - 1 \<and> y - 1 < int (length (acp_schedule f)) \<and>
      acp_for_year (acp_schedule f) y = Inr (acp_schedule f ! nat (y - 1))) \<and>
   (\<forall>y. int (length (acp_schedule f)) < y \<longrightarrow> acp_for_year (acp_schedule f) y = Inr 0)"
proof -
  have "acp_for_year (acp_schedule f) y = Inr 0" if "int (length (acp_schedule f)) < y" for y
    using that by (simp add: acp_for_year_def)
  moreover have "y \<le> int (length (acp_schedule f)) \<and> 0 \<le> y - 1 \<and>
      y - 1 < int (length (acp_schedule f)) \<and>
      acp_for_year (acp_schedule f) y = Inr (acp_schedule f ! nat (y - 1))"
    if "y \<in> {1..25}" for y
    using that acp_for_year_in_range [of y f] by (simp add: length_acp_schedule)
  ultimately show ?thesis
    using length_md_acp length_dc_acp length_acp_schedule [of f] by blast
qed

text \<open>
  C10 in Washington DC: year 25 reads the last entry, 100; a year 26 would fall back
  to 0.
\<close>

theorem acp_schedules_cover_horizon_witness:
  "(25::int) \<in> {1..25} \<and> int (length (acp_schedule dc_form)) < 26 \<and>
   acp_for_year (acp_schedule dc_form) 25 = Inr 100 \<and>
   acp_for_year (acp_schedule dc_form) 26 = Inr 0"
proof -
  have y: "(25::int) \<in> {1..25}" by simp
  have s: "acp_schedule dc_form = dc_acp"
    by (simp add: acp_schedule_def dc_form_def default_form_def)
  from acp_schedules_cover_horizon [of dc_form]
  have len: "length (acp_schedule dc_form) = 25"
    and inr: "\<forall>y \<in> {1..25}.
       acp_for_year (acp_schedule dc_form) y = Inr (acp_schedule dc_form ! nat (y - 1))"
    and out: "\<forall>y. int (length (acp_schedule dc_form)) < y
       \<longrightarrow> acp_for_year (acp_schedule dc_form) y = Inr 0"
    by blast+
  from len have l: "int (length (acp_schedule dc_form)) < 26" by simp
  from inr y have "acp_for_year (acp_schedule dc_form) 25
      = Inr (acp_schedule dc_form ! nat (25 - 1))" by blast
  then have a: "acp_for_year (acp_schedule dc_form) 25 = Inr 100"
    by (simp add: s dc_acp_def)
  from out l have b: "acp_for_year (acp_schedule dc_form) 26 = Inr 0" by blast
  from y l a b show ?thesis by blast
qed

end
